theory Spec2Isabelle
  imports Main "HOL-Library.Sublist"
begin

section \<open>Python strings\<close>

text \<open>
  A Python \<^verbatim>\<open>str\<close> is modelled as \<^typ>\<open>string\<close>.  All literals of the two source
  files are ASCII, so one \<^typ>\<open>char\<close> is one code point there.
\<close>

text \<open>
  \<^verbatim>\<open>needle in s\<close>: the needle occurs at some position of \<open>s\<close>.
\<close>

fun is_substring :: "string \<Rightarrow> string \<Rightarrow> bool" where
  "is_substring sub [] = (sub = [])"
| "is_substring sub (c # cs) = (prefix sub (c # cs) \<or> is_substring sub cs)"

text \<open>
  \<^verbatim>\<open>s.replace(old, new)\<close>: one pass from the left; wherever \<open>old\<close> starts, \<open>new\<close> is
  emitted and the scan resumes behind that occurrence, so the occurrences replaced do
  not overlap and the text emitted is never scanned again.  With an empty \<open>old\<close> Python
  puts \<open>new\<close> before every character and at the end.
\<close>

function py_replace :: "string \<Rightarrow> string \<Rightarrow> string \<Rightarrow> string" where
  "py_replace old new s =
     (if old = [] then new @ concat (map (\<lambda>c. c # new) s)
      else if s = [] then []
      else if prefix old s then new @ py_replace old new (drop (length old) s)
      else hd s # py_replace old new (tl s))"
  by pat_completeness auto
termination
  by (relation "measure (\<lambda>(old, new, s). length s)") auto

text \<open>\<^verbatim>\<open>s.count(sub)\<close> for a non-empty \<open>sub\<close>: the non-overlapping occurrences, from the left.\<close>

function py_count :: "string \<Rightarrow> string \<Rightarrow> nat" where
  "py_count sub s =
     (if sub = [] then Suc (length s)
      else if s = [] then 0
      else if prefix sub s then Suc (py_count sub (drop (length sub) s))
      else py_count sub (tl s))"
  by pat_completeness auto
termination
  by (relation "measure (\<lambda>(sub, s). length s)") auto

text \<open>\<^verbatim>\<open>str(n)\<close> for a non-negative integer.\<close>

definition digit_char :: "nat \<Rightarrow> char" where
  "digit_char d = char_of (48 + d)"

fun str_nat :: "nat \<Rightarrow> string" where
  "str_nat n = (if n < 10 then [digit_char n] else str_nat (n div 10) @ [digit_char (n mod 10)])"

section \<open>Exceptions\<close>

text \<open>
  The exception classes the handlers of the two files tell apart.  Each constructor is
  the most specific of these classes an exception belongs to and carries its text:
  \<^verbatim>\<open>requests.exceptions.Timeout\<close> is a subclass of \<^verbatim>\<open>RequestException\<close>, and the first four
  are subclasses of \<^verbatim>\<open>Exception\<close>.  \<open>OtherException\<close> is an \<^verbatim>\<open>Exception\<close> that is none of the
  first three.  \<open>BaseException\<close> is an exception outside \<^verbatim>\<open>Exception\<close>, such as \<^verbatim>\<open>SystemExit\<close>
  and \<^verbatim>\<open>KeyboardInterrupt\<close>: \<^verbatim>\<open>except Exception\<close> does not catch it, a bare \<^verbatim>\<open>except:\<close> does.
\<close>

datatype py_exn =
    SympifyError string
  | Timeout string
  | RequestException string
  | OtherException string
  | BaseException string

fun str_exn :: "py_exn \<Rightarrow> string" where
  "str_exn (SympifyError m) = m"
| "str_exn (Timeout m) = m"
| "str_exn (RequestException m) = m"
| "str_exn (OtherException m) = m"
| "str_exn (BaseException m) = m"

text \<open>\<^verbatim>\<open>isinstance(e, requests.exceptions.RequestException)\<close>.\<close>

fun is_request_exception :: "py_exn \<Rightarrow> bool" where
  "is_request_exception (Timeout m) = True"
| "is_request_exception (RequestException m) = True"
| "is_request_exception e = False"

section \<open>tools.py\<close>

subsection \<open>calculate\<close>

text \<open>
  The calls into sympy and the float conversion are library code; \<open>calculate\<close> takes
  them as a record of functions, each of which may raise.  \<open>'e\<close> is the type of sympy
  objects, \<open>'f\<close> that of Python floats.
  \<^item> \<open>sympify\<close>: \<^verbatim>\<open>sympify(s)\<close>;
  \<^item> \<open>evalf\<close>: \<^verbatim>\<open>result.evalf()\<close>;
  \<^item> \<open>to_float\<close>: \<^verbatim>\<open>float(x)\<close>;
  \<^item> \<open>str_float\<close>: \<^verbatim>\<open>str(numerical_result)\<close>;
  \<^item> \<open>str_expr\<close>: \<^verbatim>\<open>str(result)\<close>.
\<close>

record ('e, 'f) sympy =
  sympify :: "string \<Rightarrow> py_exn + 'e"
  evalf :: "'e \<Rightarrow> py_exn + 'e"
  to_float :: "'e \<Rightarrow> py_exn + 'f"
  str_float :: "'f \<Rightarrow> string"
  str_expr :: "'e \<Rightarrow> py_exn + string"

text \<open>
  Line 90: the four \<^verbatim>\<open>replace\<close> calls, applied one after the other.
\<close>

definition clean_expression :: "string \<Rightarrow> string" where
  \<open>clean_expression expression =
     py_replace ''Math.'' ''''
       (py_replace ''np.'' ''''
         (py_replace ''numpy.'' ''''
           (py_replace ''math.'' '''' expression)))\<close>

text \<open>
  Lines 96 to 100, the inner \<^verbatim>\<open>try\<close>: \<^verbatim>\<open>str(float(result.evalf()))\<close>, and \<^verbatim>\<open>str(result)\<close>
  when that raises anything (a bare \<^verbatim>\<open>except:\<close>).
\<close>

definition numerical_result :: "('e, 'f) sympy \<Rightarrow> 'e \<Rightarrow> py_exn + string" where
  "numerical_result lib result =
     (case evalf lib result of
        Inl e \<Rightarrow> Inl e
      | Inr v \<Rightarrow> (case to_float lib v of
                    Inl e \<Rightarrow> Inl e
                  | Inr x \<Rightarrow> Inr (str_float lib x)))"

definition result_str :: "('e, 'f) sympy \<Rightarrow> 'e \<Rightarrow> py_exn + string" where
  "result_str lib result =
     (case numerical_result lib result of
        Inr s \<Rightarrow> Inr s
      | Inl e \<Rightarrow> str_expr lib result)"

text \<open>Lines 89 to 103, the body of the outer \<^verbatim>\<open>try\<close>.\<close>

definition calculate_try :: "('e, 'f) sympy \<Rightarrow> string \<Rightarrow> py_exn + string" where
  \<open>calculate_try lib expression =
     (case sympify lib (clean_expression expression) of
        Inl e \<Rightarrow> Inl e
      | Inr result \<Rightarrow>
          (case result_str lib result of
             Inl e \<Rightarrow> Inl e
           | Inr s \<Rightarrow> Inr (''The result is: '' @ s)))\<close>

text \<open>
  Lines 88 to 113, the \<^verbatim>\<open>try\<close> statement with its two handlers, \<^verbatim>\<open>except SympifyError\<close> first
  and \<^verbatim>\<open>except Exception\<close> second: \<open>calculate\<close> on a standard output that takes every
  line.  \<open>Inl\<close> is an exception leaving \<open>calculate\<close>.  The function with its \<^verbatim>\<open>print\<close> calls
  is \<open>calculate_printing\<close> below.
\<close>

definition calculate :: "('e, 'f) sympy \<Rightarrow> string \<Rightarrow> py_exn + string" where
  \<open>calculate lib expression =
     (case calculate_try lib expression of
        Inr s \<Rightarrow> Inr s
      | Inl (SympifyError m) \<Rightarrow> Inr (''Invalid mathematical expression: '' @ expression)
      | Inl (BaseException m) \<Rightarrow> Inl (BaseException m)
      | Inl e \<Rightarrow> Inr (''Error calculating expression: '' @ str_exn e))\<close>

text \<open>
  The four \<^verbatim>\<open>print\<close> calls of \<open>calculate\<close> (lines 86, 102, 107 and 112) write to standard
  output, and \<^verbatim>\<open>print\<close> raises when the stream cannot take the line, for instance
  \<^verbatim>\<open>UnicodeEncodeError\<close> for a character the encoding of the stream lacks.  \<open>print_out\<close> is
  that call: \<open>None\<close> when the line was written, the exception otherwise.  The first
  call is before the \<^verbatim>\<open>try\<close>, the second in its body, the last two in the handlers, where
  nothing catches what they raise.
\<close>

definition calculate_try_printing ::
  "(string \<Rightarrow> py_exn option) \<Rightarrow> ('e, 'f) sympy \<Rightarrow> string \<Rightarrow> py_exn + string" where
  \<open>calculate_try_printing print_out lib expression =
     (case sympify lib (clean_expression expression) of
        Inl e \<Rightarrow> Inl e
      | Inr result \<Rightarrow>
          (case result_str lib result of
             Inl e \<Rightarrow> Inl e
           | Inr s \<Rightarrow>
               (case print_out (''[TOOLS] Calculation result: '' @ s) of
                  Some e \<Rightarrow> Inl e
                | None \<Rightarrow> Inr (''The result is: '' @ s))))\<close>

text \<open>Lines 107 and 108, and 112 and 113: the message is printed and returned.\<close>

definition report_error :: "(string \<Rightarrow> py_exn option) \<Rightarrow> string \<Rightarrow> py_exn + string" where
  \<open>report_error print_out error_msg =
     (case print_out (''[TOOLS] ERROR: '' @ error_msg) of
        Some e \<Rightarrow> Inl e
      | None \<Rightarrow> Inr error_msg)\<close>

text \<open>
  Lines 86 to 113, the whole function with its output.  An exception outside
  \<^verbatim>\<open>Exception\<close> passes both handlers.
\<close>

definition calculate_printing ::
  "(string \<Rightarrow> py_exn option) \<Rightarrow> ('e, 'f) sympy \<Rightarrow> string \<Rightarrow> py_exn + string" where
  \<open>calculate_printing print_out lib expression =
     (case print_out (''[TOOLS] Calculating: '' @ [CHR 0x27] @ expression @ [CHR 0x27]) of
        Some e \<Rightarrow> Inl e
      | None \<Rightarrow>
          (case calculate_try_printing print_out lib expression of
             Inr s \<Rightarrow> Inr s
           | Inl (SympifyError m) \<Rightarrow>
               report_error print_out (''Invalid mathematical expression: '' @ expression)
           | Inl (BaseException m) \<Rightarrow> Inl (BaseException m)
           | Inl e \<Rightarrow>
               report_error print_out (''Error calculating expression: '' @ str_exn e)))\<close>

text \<open>
  Two streams: one that takes every line, and one with the ASCII encoding, which
  refuses a line with a character of code 128 or more.
\<close>

definition quiet_stdout :: "string \<Rightarrow> py_exn option" where
  "quiet_stdout line = None"


text \<open>
  A small stand-in for the library, used to run \<open>calculate\<close> on concrete inputs: it
  accepts non-empty decimal numerals and rejects everything else with \<open>SympifyError\<close>.
\<close>

definition is_numeral :: "string \<Rightarrow> bool" where
  "is_numeral s = (s \<noteq> [] \<and> list_all (\<lambda>c. c \<in> set ''0123456789'') s)"

definition numeral_sympy :: "(string, string) sympy" where
  \<open>numeral_sympy =
     \<lparr> sympify = (\<lambda>s. if is_numeral s then Inr s else Inl (SympifyError s)),
       evalf = Inr,
       to_float = Inr,
       str_float = (\<lambda>x. x @ ''.0''),
       str_expr = Inr \<rparr>\<close>


subsection \<open>The registry and its description\<close>

text \<open>
  \<^verbatim>\<open>AVAILABLE_TOOLS\<close> maps names to the two functions of the module; a Python dict keeps
  insertion order, so it is an association list.
\<close>

datatype tool = Search_arxiv | Calculate

definition AVAILABLE_TOOLS :: "(string \<times> tool) list" where
  \<open>AVAILABLE_TOOLS = [(''search_arxiv'', Search_arxiv), (''calculate'', Calculate)]\<close>

definition get_tool_descriptions :: string where
  \<open>get_tool_descriptions =
   ''Available tools:\<newline>'' @
   ''1. search_arxiv(query: str) - Search arXiv for academic papers\<newline>'' @
   ''   Example: {"function": "search_arxiv", "arguments": {"query": "quantum computing"}}\<newline>'' @
   ''\<newline>'' @
   ''2. calculate(expression: str) - Evaluate a mathematical expression\<newline>'' @
   ''   Example: {"function": "calculate", "arguments": {"expression": "2+2*3"}}\<newline>''\<close>

text \<open>
  The catalogue as the spec words it (4.1, \<^verbatim>\<open>describe_all\<close>): for each tool, in registration
  order, its name, its parameter summary and one example invocation.  \<open>tool_docs\<close> holds
  what the two \<^verbatim>\<open>def\<close> lines of the module declare (name, parameter, annotation), the
  summary and the example argument.
\<close>

record tool_doc =
  doc_name :: string
  doc_param :: string
  doc_annotation :: string
  doc_summary :: string
  doc_example :: string

definition tool_docs :: "tool_doc list" where
  \<open>tool_docs =
     [\<lparr> doc_name = ''search_arxiv'', doc_param = ''query'', doc_annotation = ''str'',
        doc_summary = ''Search arXiv for academic papers'', doc_example = ''quantum computing'' \<rparr>,
      \<lparr> doc_name = ''calculate'', doc_param = ''expression'', doc_annotation = ''str'',
        doc_summary = ''Evaluate a mathematical expression'', doc_example = ''2+2*3'' \<rparr>]\<close>

definition example_invocation :: "tool_doc \<Rightarrow> string" where
  \<open>example_invocation d =
     ''{"function": "'' @ doc_name d @ ''", "arguments": {"'' @ doc_param d @ ''": "'' @
     doc_example d @ ''"}}''\<close>

definition describe_tool :: "nat \<Rightarrow> tool_doc \<Rightarrow> string" where
  \<open>describe_tool i d =
     str_nat i @ ''. '' @ doc_name d @ ''('' @ doc_param d @ '': '' @ doc_annotation d @ '') - '' @
     doc_summary d @ ''\<newline>'' @
     ''   Example: '' @ example_invocation d @ ''\<newline>''\<close>

text \<open>\<^verbatim>\<open>sep.join(xs)\<close>.\<close>

fun join :: "string \<Rightarrow> string list \<Rightarrow> string" where
  "join sep [] = []"
| "join sep [x] = x"
| "join sep (x # y # ys) = x @ sep @ join sep (y # ys)"

definition describe_all :: "tool_doc list \<Rightarrow> string" where
  \<open>describe_all ds =
     ''Available tools:\<newline>'' @
     join ''\<newline>'' (map (\<lambda>(i, d). describe_tool (Suc i) d) (enumerate 0 ds))\<close>

section \<open>conversation: the history store\<close>

text \<open>
  Modelled from the spec: the module \<^verbatim>\<open>conversation\<close> (the object \<^verbatim>\<open>conversation_manager\<close>) is
  imported by \<^verbatim>\<open>llm_with_functions.py\<close> and is not among the source files.  The spec gives
  its interface: \<^verbatim>\<open>add_user_message(text)\<close>, \<^verbatim>\<open>add_assistant_message(text)\<close> and
  \<^verbatim>\<open>get_history()\<close>, an ordered sequence of \<^verbatim>\<open>{role, content}\<close> in insertion order that
  grows without bound.  The store is the state threaded through \<open>generate\<close>; the roles
  are the names the prompt and the stop sequences of \<open>generate\<close> use.
\<close>

record message =
  role :: string
  content :: string

type_synonym history = "message list"

definition add_user_message :: "string \<Rightarrow> history \<Rightarrow> history" where
  \<open>add_user_message text h = h @ [\<lparr>role = ''user'', content = text\<rparr>]\<close>

definition add_assistant_message :: "string \<Rightarrow> history \<Rightarrow> history" where
  \<open>add_assistant_message text h = h @ [\<lparr>role = ''assistant'', content = text\<rparr>]\<close>

definition get_history :: "history \<Rightarrow> message list" where
  "get_history h = h"

section \<open>llm\_with\_functions.py\<close>

subsection \<open>The system prompt\<close>

definition build_system_prompt :: string where
  \<open>build_system_prompt =
   (''You are a helpful AI assistant.\<newline>'' @
   ''\<newline>'' @
   ''    RULES:\<newline>'' @
   ''    1. ARITHMETIC: If the user asks clearly for a math calculation (e.g., "calculate", "what is 5 + 5", "square root of..."), YOU MUST RESPONSE WITH A JSON tool call for 'calculate'.\<newline>'' @
   ''    2. RESEARCH: If the user asks to "search arxiv" or "find papers", use 'search_arxiv'.\<newline>'' @
   ''    3. OTHER: For all other questions (capitals, jokes, history), respond normally in text. DO NOT use tools.\<newline>'' @
   ''    \<newline>'' @
   ''    TOOL OUTPUT FORMAT:\<newline>'' @
   ''    {"function": "function_name", "arguments": {"arg_name": "arg_value"}}\<newline>'' @
   ''    \<newline>'' @
   ''    '') @
   get_tool_descriptions @
   (''\<newline>'' @
   ''    \<newline>'' @
   ''    Examples:\<newline>'' @
   ''    User: "Calculate 25 * 4"\<newline>'' @
   ''    Assistant: {"function": "calculate", "arguments": {"expression": "25*4"}}\<newline>'' @
   ''    \<newline>'' @
   ''    User: "What is the square root of 144?"\<newline>'' @
   ''    Assistant: {"function": "calculate", "arguments": {"expression": "sqrt(144)"}}\<newline>'' @
   ''    \<newline>'' @
   ''    User: "Find papers on quantum computing"\<newline>'' @
   ''    Assistant: {"function": "search_arxiv", "arguments": {"query": "quantum computing"}}\<newline>'' @
   ''    \<newline>'' @
   ''    User: "What is the capital of Canada?"\<newline>'' @
   ''    Assistant: The capital of Canada is Ottawa.\<newline>'' @
   ''    \<newline>'' @
   ''    IMPORTANT: Do not explain your tools. Just use them if needed. If no tool is needed, just speak.'')\<close>

subsection \<open>The prompt\<close>

text \<open>
  \<^verbatim>\<open>xs[-k:]\<close>: the whole list when it has at most \<open>k\<close> elements, its last \<open>k\<close> otherwise.
\<close>

definition py_last :: "nat \<Rightarrow> 'a list \<Rightarrow> 'a list" where
  "py_last k xs = (if length xs \<le> k then xs else drop (length xs - k) xs)"

text \<open>Line 90, the piece one turn adds to the prompt.\<close>

definition format_turn :: "message \<Rightarrow> string" where
  \<open>format_turn turn = role turn @ '': '' @ content turn @ ''\<newline>''\<close>

text \<open>
  Lines 84 to 93: the prompt built from the history that \<open>get_history\<close> returned.  The
  loop appends to the prompt turn by turn.
\<close>

definition generate_prompt :: "message list \<Rightarrow> string" where
  \<open>generate_prompt history =
     foldl (\<lambda>prompt turn. prompt @ format_turn turn)
       (build_system_prompt @ ''\<newline>\<newline>'') (py_last 10 history)
     @ ''assistant:''\<close>

subsection \<open>The backend call\<close>

text \<open>
  Decoded JSON.  A number keeps the text of its literal, so that no floating point
  value has to be modelled.
\<close>

datatype json =
    JNull
  | JBool bool
  | JNum string
  | JStr string
  | JArr "json list"
  | JObj "(string \<times> json) list"

text \<open>
  What \<^verbatim>\<open>requests.post\<close> returns: \<open>raise_for_status\<close> is the exception that call raises
  (an \<^verbatim>\<open>HTTPError\<close>, which is a \<^verbatim>\<open>RequestException\<close>) or \<open>None\<close>; \<open>json_body\<close> is the result
  of \<^verbatim>\<open>response.json()\<close>.
\<close>

record http_response =
  raise_for_status :: "py_exn option"
  json_body :: "py_exn + json"

text \<open>
  The object \<^verbatim>\<open>self\<close>.  The constructor (lines 25 to 27) computes the endpoint.
\<close>

record llm_module =
  model_name :: string
  ollama_url :: string
  api_endpoint :: string

definition init_llm_module :: "string \<Rightarrow> string \<Rightarrow> llm_module" where
  \<open>init_llm_module name url =
     \<lparr> model_name = name, ollama_url = url, api_endpoint = url @ ''/api/generate'' \<rparr>\<close>

definition llm_module_with_functions :: llm_module where
  \<open>llm_module_with_functions = init_llm_module ''llama3.2:1b'' ''http://localhost:11434''\<close>

text \<open>
  The collaborators of \<open>generate\<close> outside the file: \<open>post\<close> is \<^verbatim>\<open>requests.post\<close> with the
  endpoint, the model name and the prompt (the generation options are constants);
  \<open>route_llm_output\<close> is the router, imported from the module \<^verbatim>\<open>function_router\<close>, which
  is not among the source files.  Both may raise.
\<close>

record world =
  post :: "string \<Rightarrow> string \<Rightarrow> string \<Rightarrow> py_exn + http_response"
  route_llm_output :: "string \<Rightarrow> py_exn + string \<times> bool"

text \<open>
  \<^verbatim>\<open>s.strip()\<close>: the characters of \<^verbatim>\<open>str.isspace\<close> below code 256, which are the codes 9 to
  13, 28 to 32, 133 and 160.
\<close>

definition is_space :: "char \<Rightarrow> bool" where
  "is_space c =
     (let n = (of_char c :: nat)
      in (9 \<le> n \<and> n \<le> 13) \<or> (28 \<le> n \<and> n \<le> 32) \<or> n = 133 \<or> n = 160)"

definition strip :: "string \<Rightarrow> string" where
  "strip s = rev (dropWhile is_space (rev (dropWhile is_space s)))"

text \<open>
  Line 120, \<^verbatim>\<open>result.get("response", "").strip()\<close>: \<^verbatim>\<open>get\<close> exists on a dict only, \<^verbatim>\<open>strip\<close>
  on a string only; on anything else the attribute lookup raises \<^verbatim>\<open>AttributeError\<close>.
\<close>

definition response_text :: "json \<Rightarrow> py_exn + string" where
  \<open>response_text result =
     (case result of
        JObj members \<Rightarrow>
          (case map_of members ''response'' of
             None \<Rightarrow> Inr (strip [])
           | Some (JStr s) \<Rightarrow> Inr (strip s)
           | Some v \<Rightarrow> Inl (OtherException ''AttributeError''))
      | v \<Rightarrow> Inl (OtherException ''AttributeError''))\<close>

text \<open>Lines 100 to 120: the request, the status check and the decoding.\<close>

definition backend_call :: "world \<Rightarrow> llm_module \<Rightarrow> string \<Rightarrow> py_exn + string" where
  "backend_call w self prompt =
     (case post w (api_endpoint self) (model_name self) prompt of
        Inl e \<Rightarrow> Inl e
      | Inr response \<Rightarrow>
          (case raise_for_status response of
             Some e \<Rightarrow> Inl e
           | None \<Rightarrow>
               (case json_body response of
                  Inl e \<Rightarrow> Inl e
                | Inr result \<Rightarrow> response_text result)))"

text \<open>Lines 125 to 128: the first role prefix the output starts with is cut off.\<close>

fun strip_role_prefix :: "string list \<Rightarrow> string \<Rightarrow> string" where
  "strip_role_prefix [] llm_output = llm_output"
| "strip_role_prefix (p # ps) llm_output =
     (if prefix p llm_output then strip (drop (length p) llm_output)
      else strip_role_prefix ps llm_output)"

definition role_prefixes :: "string list" where
  \<open>role_prefixes = [''assistant:'', ''Assistant:'', ''ASSISTANT:'']\<close>

subsection \<open>generate\<close>

text \<open>
  Lines 99 to 142, the body of the \<^verbatim>\<open>try\<close>, run on the store that already holds the
  user message.  The store changes in its last statement only, so an exception leaves
  the store as it was.
\<close>

definition generate_try :: "world \<Rightarrow> llm_module \<Rightarrow> string \<Rightarrow> history \<Rightarrow> py_exn + string \<times> history" where
  "generate_try w self prompt h =
     (case backend_call w self prompt of
        Inl e \<Rightarrow> Inl e
      | Inr llm_output \<Rightarrow>
          (case route_llm_output w (strip_role_prefix role_prefixes llm_output) of
             Inl e \<Rightarrow> Inl e
           | Inr (final_response, was_function_call) \<Rightarrow>
               Inr (final_response, add_assistant_message final_response h)))"

definition timeout_fallback :: string where
  \<open>timeout_fallback = ''Sorry, that took too long. Try clearing history or asking a shorter question.''\<close>

definition connection_fallback :: string where
  \<open>connection_fallback = ''I'm having trouble connecting to the language model. Please make sure Ollama is running.''\<close>

text \<open>
  The whole method, on the store \<open>h\<close>: the result and the store afterwards.  The
  handlers are \<^verbatim>\<open>except Timeout\<close> first and \<^verbatim>\<open>except RequestException\<close> second; any other
  exception leaves \<open>generate\<close> (\<open>Inl\<close>).
\<close>

definition generate :: "world \<Rightarrow> llm_module \<Rightarrow> string \<Rightarrow> history \<Rightarrow> (py_exn + string) \<times> history" where
  "generate w self user_text h =
     (let h1 = add_user_message user_text h;
          prompt = generate_prompt (get_history h1)
      in case generate_try w self prompt h1 of
           Inr (final_response, h2) \<Rightarrow> (Inr final_response, h2)
         | Inl (Timeout m) \<Rightarrow>
             (Inr timeout_fallback, add_assistant_message timeout_fallback h1)
         | Inl (RequestException m) \<Rightarrow>
             (Inr connection_fallback, add_assistant_message connection_fallback h1)
         | Inl e \<Rightarrow> (Inl e, h1))"

section \<open>function\_router: extraction, dispatch and routing\<close>

text \<open>
  Modelled from the spec: the module \<^verbatim>\<open>function_router\<close> (the function \<^verbatim>\<open>route_llm_output\<close>
  that \<open>generate\<close> calls) is not among the source files.  The definitions of this section
  follow sections 3, 4.2, 4.3 and 4.4 of the spec.  What the spec leaves open is a
  parameter: the parser of the isolated text (step 2 of 4.2), the wording of the three
  error strings, and which strings look numeric (4.3).
\<close>

record parsed_call =
  call_name :: string
  call_arguments :: "(string \<times> json) list"

record route_result =
  final_text :: string
  was_call :: bool

record router_params =
  json_loads :: "string \<Rightarrow> json option"
  unknown_tool_message :: "string \<Rightarrow> string"
  missing_argument_message :: "string \<Rightarrow> string \<Rightarrow> string"
  tool_failure_message :: "string \<Rightarrow> py_exn \<Rightarrow> string"
  numeric_looking :: "string \<Rightarrow> bool"

subsection \<open>4.2 Call Extractor\<close>

text \<open>
  Step 1, the scan behind the first opening brace.  Its state: \<open>depth\<close> counts the braces
  and brackets that are open, \<open>in_str\<close> says that the scan is inside a string literal and
  \<open>esc\<close> that the character before was a backslash there.  Inside a string literal nothing
  counts.  The scan ends at the closing brace that brings the depth to zero; a closing
  bracket there means that there is no balanced marker.
\<close>

datatype scan_action = Continue nat bool bool | Found | Unbalanced

definition scan_step :: "nat \<Rightarrow> bool \<Rightarrow> bool \<Rightarrow> char \<Rightarrow> scan_action" where
  "scan_step depth in_str esc c =
     (if in_str then
        (if esc then Continue depth True False
         else if c = CHR 0x5C then Continue depth True True
         else if c = CHR 0x22 then Continue depth False False
         else Continue depth True False)
      else if c = CHR 0x22 then Continue depth True False
      else if c = CHR ''{'' \<or> c = CHR ''['' then Continue (Suc depth) False False
      else if c = CHR ''}'' \<or> c = CHR '']'' then
        (if depth \<le> 1 then (if c = CHR ''}'' then Found else Unbalanced)
         else Continue (depth - 1) False False)
      else Continue depth False False)"

text \<open>
  The scan over the text: \<open>acc\<close> is the text read so far, reversed.  The end of the text
  before a balanced closing brace means that there is no balanced marker.
\<close>

fun scan_balanced :: "nat \<Rightarrow> bool \<Rightarrow> bool \<Rightarrow> string \<Rightarrow> string \<Rightarrow> string option" where
  "scan_balanced depth in_str esc acc [] = None"
| "scan_balanced depth in_str esc acc (c # cs) =
     (case scan_step depth in_str esc c of
        Continue depth' in_str' esc' \<Rightarrow> scan_balanced depth' in_str' esc' (c # acc) cs
      | Found \<Rightarrow> Some (rev (c # acc))
      | Unbalanced \<Rightarrow> None)"

definition isolate_marker :: "string \<Rightarrow> string option" where
  "isolate_marker raw =
     (case dropWhile (\<lambda>c. c \<noteq> CHR ''{'') raw of
        [] \<Rightarrow> None
      | c # cs \<Rightarrow> scan_balanced 1 False False [c] cs)"

text \<open>A scalar: a string or a number (section 6, the wire format).\<close>

fun is_scalar :: "json \<Rightarrow> bool" where
  "is_scalar (JStr s) = True"
| "is_scalar (JNum n) = True"
| "is_scalar v = False"

text \<open>
  Steps 4 and 5: both keys are present, the name is a string, the arguments are a flat
  mapping; the name is trimmed and the arguments are taken as they are.
\<close>

definition marker_call :: "json \<Rightarrow> parsed_call option" where
  \<open>marker_call v =
     (case v of
        JObj members \<Rightarrow>
          (case (map_of members ''function'', map_of members ''arguments'') of
             (Some (JStr name), Some (JObj args)) \<Rightarrow>
               (if list_all (\<lambda>(k, a). is_scalar a) args
                then Some \<lparr>call_name = strip name, call_arguments = args\<rparr>
                else None)
           | other \<Rightarrow> None)
      | other \<Rightarrow> None)\<close>

text \<open>\<^verbatim>\<open>extract\<close>: steps 1 to 5 together; a parse failure (step 3) is \<open>None\<close>.\<close>

definition extract_call :: "router_params \<Rightarrow> string \<Rightarrow> parsed_call option" where
  "extract_call P raw =
     (case isolate_marker raw of
        None \<Rightarrow> None
      | Some marker \<Rightarrow>
          (case json_loads P marker of
             None \<Rightarrow> None
           | Some v \<Rightarrow> marker_call v))"

subsection \<open>4.1 Tool Registry and 4.3 Dispatcher\<close>

datatype semantic_type = Text | Number

record parameter =
  param_name :: string
  param_type :: semantic_type
  required :: bool

record tool_descriptor =
  tool_name :: string
  parameters :: "parameter list"
  invoke :: "(string \<times> json) list \<Rightarrow> py_exn + string"
  description :: string

type_synonym registry = "tool_descriptor list"

definition lookup :: "registry \<Rightarrow> string \<Rightarrow> tool_descriptor option" where
  "lookup reg name = find (\<lambda>d. tool_name d = name) reg"

text \<open>The required parameters of a tool that a call does not give, in declaration order.\<close>

definition missing_arguments :: "tool_descriptor \<Rightarrow> (string \<times> json) list \<Rightarrow> string list" where
  "missing_arguments d args =
     map param_name (filter (\<lambda>p. required p \<and> map_of args (param_name p) = None) (parameters d))"

text \<open>
  Coercion: a numeric-looking string given for a number parameter becomes a number,
  every other value is passed through.
\<close>

definition coerce :: "router_params \<Rightarrow> tool_descriptor \<Rightarrow> string \<times> json \<Rightarrow> string \<times> json" where
  "coerce P d arg =
     (case (find (\<lambda>p. param_name p = fst arg) (parameters d), snd arg) of
        (Some p, JStr s) \<Rightarrow>
          (if param_type p = Number \<and> numeric_looking P s then (fst arg, JNum s) else arg)
      | other \<Rightarrow> arg)"

text \<open>
  The three failures (unknown tool, missing argument, exception of the tool body) become
  strings; the tool is not invoked in the first two.
\<close>

definition dispatch :: "router_params \<Rightarrow> registry \<Rightarrow> parsed_call \<Rightarrow> string" where
  "dispatch P reg call =
     (case lookup reg (call_name call) of
        None \<Rightarrow> unknown_tool_message P (call_name call)
      | Some d \<Rightarrow>
          (case missing_arguments d (call_arguments call) of
             m # ms \<Rightarrow> missing_argument_message P (call_name call) m
           | [] \<Rightarrow>
               (case invoke d (map (coerce P d) (call_arguments call)) of
                  Inl e \<Rightarrow> tool_failure_message P (call_name call) e
                | Inr s \<Rightarrow> s)))"

subsection \<open>4.4 Router Facade\<close>

definition route :: "router_params \<Rightarrow> registry \<Rightarrow> string \<Rightarrow> route_result" where
  "route P reg raw_output =
     (case extract_call P raw_output of
        None \<Rightarrow> \<lparr>final_text = raw_output, was_call = False\<rparr>
      | Some call \<Rightarrow> \<lparr>final_text = dispatch P reg call, was_call = True\<rparr>)"

subsection \<open>An instance: the example scenarios of section 8\<close>

text \<open>
  A parser that knows the markers of the example scenarios and fails on every other
  text, a registry with the tool \<open>calculate\<close> of \<^verbatim>\<open>tools.py\<close> on the stand-in library, and
  error strings.
\<close>

definition example_markers :: "(string \<times> json) list" where
  \<open>example_markers =
     [(''{"function": "calculate", "arguments": {"expression": "12"}}'',
       JObj [(''function'', JStr ''calculate''), (''arguments'', JObj [(''expression'', JStr ''12'')])]),
      (''{"function": "calculate", "arguments": {}}'',
       JObj [(''function'', JStr ''calculate''), (''arguments'', JObj [])]),
      (''{"function": "calculate", "arguments": {"expression": 12}}'',
       JObj [(''function'', JStr ''calculate''), (''arguments'', JObj [(''expression'', JNum ''12'')])]),
      (''{"function": "calculate", "arguments": {"expression": "12", "digits": 3}}'',
       JObj [(''function'', JStr ''calculate''),
             (''arguments'', JObj [(''expression'', JStr ''12''), (''digits'', JNum ''3'')])]),
      (''{"function": "teleport", "arguments": {"to": "mars"}}'',
       JObj [(''function'', JStr ''teleport''), (''arguments'', JObj [(''to'', JStr ''mars'')])])]\<close>

definition example_params :: router_params where
  \<open>example_params =
     \<lparr> json_loads = map_of example_markers,
       unknown_tool_message = (\<lambda>name. ''Unknown tool: '' @ name),
       missing_argument_message = (\<lambda>name arg. ''Missing argument: '' @ arg),
       tool_failure_message = (\<lambda>name e. ''Tool failed: '' @ str_exn e),
       numeric_looking = is_numeral \<rparr>\<close>

text \<open>
  \<^verbatim>\<open>calculate(**arguments)\<close>: the call raises \<^verbatim>\<open>TypeError\<close> for a keyword the function does not
  have and for a missing \<^verbatim>\<open>expression\<close>.  An \<^verbatim>\<open>expression\<close> that is not a string has no
  \<^verbatim>\<open>replace\<close>; that \<^verbatim>\<open>AttributeError\<close> is raised inside the \<^verbatim>\<open>try\<close> of \<open>calculate\<close>, whose
  second handler returns it as text.
\<close>

definition is_int_literal :: "string \<Rightarrow> bool" where
  "is_int_literal n = is_numeral (case n of [] \<Rightarrow> [] | c # cs \<Rightarrow> if c = CHR ''-'' then cs else n)"

fun py_type_name :: "json \<Rightarrow> string" where
  "py_type_name JNull = ''NoneType''"
| "py_type_name (JBool b) = ''bool''"
| "py_type_name (JNum n) = (if is_int_literal n then ''int'' else ''float'')"
| "py_type_name (JStr s) = ''str''"
| "py_type_name (JArr xs) = ''list''"
| "py_type_name (JObj members) = ''dict''"

definition calculate_invoke :: "(string \<times> json) list \<Rightarrow> py_exn + string" where
  \<open>calculate_invoke args =
     (if list_ex (\<lambda>(k, v). k \<noteq> ''expression'') args then Inl (OtherException ''TypeError'')
      else
        (case map_of args ''expression'' of
           None \<Rightarrow> Inl (OtherException ''TypeError'')
         | Some (JStr s) \<Rightarrow> calculate numeral_sympy s
         | Some v \<Rightarrow>
             Inr (''Error calculating expression: '' @ [CHR 0x27] @ py_type_name v @ [CHR 0x27] @
                  '' object has no attribute '' @ [CHR 0x27] @ ''replace'' @ [CHR 0x27])))\<close>

definition example_registry :: registry where
  \<open>example_registry =
     [\<lparr> tool_name = ''calculate'',
        parameters = [\<lparr>param_name = ''expression'', param_type = Text, required = True\<rparr>],
        invoke = calculate_invoke,
        description = ''Evaluate a mathematical expression'' \<rparr>]\<close>

section \<open>Worlds for running generate\<close>

text \<open>
  A world whose backend answers every request in the same way and whose router returns
  its input as plain text.
\<close>

definition fixed_world :: "py_exn + http_response \<Rightarrow> world" where
  "fixed_world answer =
     \<lparr> post = (\<lambda>endpoint model prompt. answer),
       route_llm_output = (\<lambda>llm_output. Inr (llm_output, False)) \<rparr>"

definition ok_response :: "json \<Rightarrow> py_exn + http_response" where
  "ok_response body = Inr \<lparr> raise_for_status = None, json_body = Inr body \<rparr>"

text \<open>A history of \<open>n\<close> numbered turns, user and assistant in alternation.\<close>

definition numbered_turns :: "nat \<Rightarrow> message list" where
  \<open>numbered_turns n =
     map (\<lambda>i. \<lparr>role = (if even i then ''user'' else ''assistant''), content = str_nat i\<rparr>) [0..<n]\<close>

declare py_replace.simps [simp del] py_count.simps [simp del] str_nat.simps [simp del]

section \<open>The router: properties\<close>

lemma scan_step_Found: "scan_step depth in_str esc c = Found \<Longrightarrow> c = CHR ''}''"
  by (simp add: scan_step_def split: if_splits)

lemma scan_balanced_closing:
  "scan_balanced depth in_str esc acc cs = Some r \<Longrightarrow> CHR ''}'' \<in> set cs"
  by (induction cs arbitrary: depth in_str esc acc)
     (auto split: scan_action.splits dest: scan_step_Found)

lemma isolate_marker_brace_span:
  assumes "isolate_marker raw = Some m"
  shows "\<exists>a b c. raw = a @ ''{'' @ b @ ''}'' @ c"
proof -
  let ?P = "\<lambda>c. c \<noteq> CHR ''{''"
  from assms obtain c cs where dw: "dropWhile ?P raw = c # cs"
    and sc: "scan_balanced 1 False False [c] cs = Some m"
    by (auto simp: isolate_marker_def split: list.splits)
  from dw have c: "c = CHR ''{''"
    using hd_dropWhile [of ?P raw] by auto
  from sc have "CHR ''}'' \<in> set cs" by (rule scan_balanced_closing)
  then obtain b d where cs: "cs = b @ CHR ''}'' # d" by (auto dest: split_list)
  have "raw = takeWhile ?P raw @ dropWhile ?P raw" by simp
  with dw c cs have "raw = takeWhile ?P raw @ ''{'' @ b @ ''}'' @ d" by simp
  then show ?thesis by blast
qed

lemma scan_balanced_span:
  "scan_balanced depth in_str esc acc cs = Some r \<Longrightarrow>
   \<exists>k<length cs. r = rev acc @ take (Suc k) cs \<and>
     (\<forall>n\<le>k. scan_balanced depth in_str esc acc (take n cs) = None)"
proof (induction cs arbitrary: depth in_str esc acc)
  case Nil
  then show ?case by simp
next
  case (Cons c cs)
  show ?case
  proof (cases "scan_step depth in_str esc c")
    case (Continue d i e)
    with Cons.prems have "scan_balanced d i e (c # acc) cs = Some r" by simp
    from Cons.IH [OF this] obtain k where k: "k < length cs"
      "r = rev (c # acc) @ take (Suc k) cs"
      "\<forall>n\<le>k. scan_balanced d i e (c # acc) (take n cs) = None" by blast
    have "\<forall>n\<le>Suc k. scan_balanced depth in_str esc acc (take n (c # cs)) = None"
    proof (intro allI impI)
      fix n assume "n \<le> Suc k"
      then show "scan_balanced depth in_str esc acc (take n (c # cs)) = None"
        using k(3) Continue by (cases n) simp_all
    qed
    with k(1,2) show ?thesis by (intro exI [of _ "Suc k"]) simp
  next
    case Found
    with Cons.prems have "r = rev acc @ take (Suc 0) (c # cs)" by simp
    moreover have "\<forall>n\<le>0. scan_balanced depth in_str esc acc (take n (c # cs)) = None" by simp
    ultimately show ?thesis by (intro exI [of _ 0]) simp
  next
    case Unbalanced
    with Cons.prems show ?thesis by simp
  qed
qed

lemma isolate_marker_no_brace:
  assumes "CHR ''{'' \<notin> set s"
  shows "isolate_marker s = None"
proof -
  from assms have "\<forall>x\<in>set s. x \<noteq> CHR ''{''" by auto
  then have h: "dropWhile (\<lambda>c. c \<noteq> CHR ''{'') s = []" by (simp only: dropWhile_eq_Nil_conv)
  show ?thesis by (simp only: isolate_marker_def h list.case)
qed

lemma isolate_marker_truncated:
  assumes "isolate_marker raw = Some m"
  shows "\<exists>pre post. raw = pre @ m @ post \<and> CHR ''{'' \<notin> set pre \<and>
           (\<forall>n<length pre + length m. isolate_marker (take n raw) = None)"
proof -
  let ?P = "\<lambda>c. c \<noteq> CHR ''{''"
  let ?pre = "takeWhile ?P raw"
  from assms obtain c cs where dw: "dropWhile ?P raw = c # cs"
    and sc: "scan_balanced 1 False False [c] cs = Some m"
    by (auto simp: isolate_marker_def split: list.splits)
  from dw have c: "c = CHR ''{''"
    using hd_dropWhile [of ?P raw] by auto
  from scan_balanced_span [OF sc] obtain k where k: "k < length cs"
    "m = [c] @ take (Suc k) cs"
    "\<forall>n\<le>k. scan_balanced 1 False False [c] (take n cs) = None" by auto
  have raw: "raw = ?pre @ c # cs" using dw takeWhile_dropWhile_id [of ?P raw] by simp
  have pre: "CHR ''{'' \<notin> set ?pre" by (auto dest: set_takeWhileD)
  have "raw = ?pre @ m @ drop (Suc k) cs"
    using raw k(2) by (simp del: take_Suc_Cons)
  moreover have "\<forall>n<length ?pre + length m. isolate_marker (take n raw) = None"
  proof (intro allI impI)
    fix n assume n: "n < length ?pre + length m"
    show "isolate_marker (take n raw) = None"
    proof (cases "n \<le> length ?pre")
      case True
      then have "take n raw = take n ?pre" by (subst raw) simp
      then have "CHR ''{'' \<notin> set (take n raw)" using pre by (auto dest: in_set_takeD)
      then show ?thesis by (rule isolate_marker_no_brace)
    next
      case False
      then obtain j where j: "n = length ?pre + Suc j" 
        by (metis add_Suc_right less_imp_Suc_add not_le)
      with n k(1,2) have jk: "j \<le> k" by simp
      have "take n raw = ?pre @ c # take j cs" by (subst raw) (simp add: j)
      moreover have "dropWhile ?P (?pre @ c # take j cs) = c # take j cs"
        using c by (subst dropWhile_append2) (auto dest: set_takeWhileD)
      ultimately show ?thesis using k(3) jk by (simp add: isolate_marker_def)
    qed
  qed
  ultimately show ?thesis using pre by blast
qed


lemma extract_call_no_marker: "isolate_marker raw = None \<Longrightarrow> extract_call P raw = None"
  by (simp add: extract_call_def)

lemma extract_call_parse_failure:
  "isolate_marker raw = Some m \<Longrightarrow> json_loads P m = None \<Longrightarrow> extract_call P raw = None"
  by (simp add: extract_call_def)

lemma route_Some:
  "extract_call P raw = Some call \<Longrightarrow>
   route P reg raw = \<lparr>final_text = dispatch P reg call, was_call = True\<rparr>"
  by (simp add: route_def)

lemma route_None:
  "extract_call P raw = None \<Longrightarrow> route P reg raw = \<lparr>final_text = raw, was_call = False\<rparr>"
  by (simp add: route_def)

text \<open>
  Claim C1.  A text without a substring that opens with a brace and closes with a brace
  is routed unchanged, and \<open>was_call\<close> is false.
\<close>

theorem route_plain_text:
  assumes "\<not> (\<exists>a b c. s = a @ ''{'' @ b @ ''}'' @ c)"
  shows "route P reg s = \<lparr>final_text = s, was_call = False\<rparr>"
proof -
  from assms have "isolate_marker s = None"
    using isolate_marker_brace_span [of s] by (cases "isolate_marker s") auto
  then show ?thesis by (simp add: route_None extract_call_no_marker)
qed

theorem route_plain_text_witness:
  "\<not> (\<exists>a b c. ''The capital of Canada is Ottawa.'' = a @ ''{'' @ b @ ''}'' @ c) \<and>
   route example_params example_registry ''The capital of Canada is Ottawa.'' =
     \<lparr>final_text = ''The capital of Canada is Ottawa.'', was_call = False\<rparr>"
proof -
  have h: "\<not> (\<exists>a b c. ''The capital of Canada is Ottawa.'' = a @ ''{'' @ b @ ''}'' @ c)"
  proof
    assume "\<exists>a b c. ''The capital of Canada is Ottawa.'' = a @ ''{'' @ b @ ''}'' @ c"
    then obtain a b c where "''The capital of Canada is Ottawa.'' = a @ ''{'' @ b @ ''}'' @ c"
      by blast
    then have "set ''The capital of Canada is Ottawa.'' = set (a @ ''{'' @ b @ ''}'' @ c)"
      by (rule arg_cong)
    then have "CHR ''{'' \<in> set ''The capital of Canada is Ottawa.''" by simp
    then show False by simp
  qed
  from route_plain_text [OF h] h show ?thesis by blast
qed

text \<open>
  Claim C2.  \<open>was_call\<close> is true exactly when the extractor found a call, which is when
  dispatch is attempted; a dispatch that fails (unknown tool, missing argument, exception
  of the tool) gives its error string with \<open>was_call\<close> true.
\<close>

theorem route_was_call:
  "(was_call (route P reg raw) \<longleftrightarrow> extract_call P raw \<noteq> None) \<and>
   (\<forall>call. extract_call P raw = Some call \<and> lookup reg (call_name call) = None \<longrightarrow>
      route P reg raw =
        \<lparr>final_text = unknown_tool_message P (call_name call), was_call = True\<rparr>) \<and>
   (\<forall>call d m ms. extract_call P raw = Some call \<and> lookup reg (call_name call) = Some d \<and>
      missing_arguments d (call_arguments call) = m # ms \<longrightarrow>
      route P reg raw =
        \<lparr>final_text = missing_argument_message P (call_name call) m, was_call = True\<rparr>) \<and>
   (\<forall>call d e. extract_call P raw = Some call \<and> lookup reg (call_name call) = Some d \<and>
      missing_arguments d (call_arguments call) = [] \<and>
      invoke d (map (coerce P d) (call_arguments call)) = Inl e \<longrightarrow>
      route P reg raw =
        \<lparr>final_text = tool_failure_message P (call_name call) e, was_call = True\<rparr>)"
  by (cases "extract_call P raw") (simp_all add: route_def dispatch_def)


theorem route_was_call_witness:
  \<open>route example_params example_registry
      ''Sure! {"function": "teleport", "arguments": {"to": "mars"}} Let me know.'' =
     \<lparr>final_text = ''Unknown tool: teleport'', was_call = True\<rparr> \<and>
   route example_params example_registry ''{"function": "calculate", "arguments": {}}'' =
     \<lparr>final_text = ''Missing argument: expression'', was_call = True\<rparr> \<and>
   route example_params example_registry
      ''{"function": "calculate", "arguments": {"expression": "12", "digits": 3}}'' =
     \<lparr>final_text = ''Tool failed: TypeError'', was_call = True\<rparr>\<close>
proof -
  let ?r1 = \<open>''Sure! {"function": "teleport", "arguments": {"to": "mars"}} Let me know.''\<close>
  let ?r2 = \<open>''{"function": "calculate", "arguments": {}}''\<close>
  let ?r3 = \<open>''{"function": "calculate", "arguments": {"expression": "12", "digits": 3}}''\<close>
  let ?c1 = "\<lparr>call_name = ''teleport'', call_arguments = [(''to'', JStr ''mars'')]\<rparr>"
  let ?c2 = "\<lparr>call_name = ''calculate'', call_arguments = []\<rparr>"
  let ?c3 = "\<lparr>call_name = ''calculate'',
               call_arguments = [(''expression'', JStr ''12''), (''digits'', JNum ''3'')]\<rparr>"
  let ?d = "hd example_registry"
  have e1: "extract_call example_params ?r1 = Some ?c1" by code_simp
  have l1: "lookup example_registry (call_name ?c1) = None"
    by (simp add: lookup_def example_registry_def)
  have e2: "extract_call example_params ?r2 = Some ?c2" by code_simp
  have l2: "lookup example_registry (call_name ?c2) = Some ?d"
    by (simp add: lookup_def example_registry_def)
  have m2: "missing_arguments ?d (call_arguments ?c2) = [''expression'']" by code_simp
  have e3: "extract_call example_params ?r3 = Some ?c3" by code_simp
  have l3: "lookup example_registry (call_name ?c3) = Some ?d"
    by (simp add: lookup_def example_registry_def)
  have m3: "missing_arguments ?d (call_arguments ?c3) = []" by code_simp
  have i3: "invoke ?d (map (coerce example_params ?d) (call_arguments ?c3)) =
              Inl (OtherException ''TypeError'')" by code_simp
  have "route example_params example_registry ?r1 =
          \<lparr>final_text = unknown_tool_message example_params (call_name ?c1), was_call = True\<rparr>"
    using route_was_call [of example_params example_registry ?r1] e1 l1 by blast
  moreover have "route example_params example_registry ?r2 =
          \<lparr>final_text = missing_argument_message example_params (call_name ?c2) ''expression'',
           was_call = True\<rparr>"
    using route_was_call [of example_params example_registry ?r2] e2 l2 m2 by blast
  moreover have "route example_params example_registry ?r3 =
          \<lparr>final_text = tool_failure_message example_params (call_name ?c3)
             (OtherException ''TypeError''), was_call = True\<rparr>"
    using route_was_call [of example_params example_registry ?r3] e3 l3 m3 i3 by blast
  ultimately show ?thesis by (simp add: example_params_def)
qed

text \<open>
  An \<^verbatim>\<open>expression\<close> that is a number is no failure of the dispatch: \<open>calculate\<close> itself returns the
  text of its second handler.
\<close>

lemma route_number_expression:
  \<open>route example_params example_registry ''{"function": "calculate", "arguments": {"expression": 12}}'' =
     \<lparr>final_text = ''Error calculating expression: '' @ [CHR 0x27] @ ''int'' @ [CHR 0x27] @
        '' object has no attribute '' @ [CHR 0x27] @ ''replace'' @ [CHR 0x27],
      was_call = True\<rparr>\<close>
  by code_simp

text \<open>
  Claim C3.  The extractor is a total function into an option.  It finds no call when the
  text has no balanced marker, when the parser rejects the marker, and when the text is
  cut off anywhere before the end of its marker.
\<close>

theorem extract_call_malformed:
  "(isolate_marker raw = None \<longrightarrow> extract_call P raw = None) \<and>
   (\<forall>m. isolate_marker raw = Some m \<and> json_loads P m = None \<longrightarrow> extract_call P raw = None) \<and>
   (\<forall>m. isolate_marker raw = Some m \<longrightarrow>
      (\<exists>pre post. raw = pre @ m @ post \<and>
         (\<forall>n<length pre + length m. extract_call P (take n raw) = None)))"
proof (intro conjI allI impI)
  assume "isolate_marker raw = None"
  then show "extract_call P raw = None" by (rule extract_call_no_marker)
next
  fix m assume "isolate_marker raw = Some m \<and> json_loads P m = None"
  then show "extract_call P raw = None" by (simp add: extract_call_parse_failure)
next
  fix m assume "isolate_marker raw = Some m"
  from isolate_marker_truncated [OF this] obtain pre post where
    "raw = pre @ m @ post" "\<forall>n<length pre + length m. isolate_marker (take n raw) = None"
    by blast
  then show "\<exists>pre post. raw = pre @ m @ post \<and>
         (\<forall>n<length pre + length m. extract_call P (take n raw) = None)"
    using extract_call_no_marker by blast
qed

theorem extract_call_malformed_witness:
  \<open>isolate_marker ''{"function": "calculate", "arguments": {"expression": "12"}'' = None \<and>
   extract_call example_params ''{"function": "calculate", "arguments": {"expression": "12"}'' = None \<and>
   isolate_marker ''Here: {"function": calculate} done'' = Some ''{"function": calculate}'' \<and>
   json_loads example_params ''{"function": calculate}'' = None \<and>
   extract_call example_params ''Here: {"function": calculate} done'' = None \<and>
   isolate_marker ''{"function": "calculate", "arguments": {}}'' =
     Some ''{"function": "calculate", "arguments": {}}'' \<and>
   extract_call example_params (take 41 ''{"function": "calculate", "arguments": {}}'') = None\<close>
proof -
  let ?r1 = \<open>''{"function": "calculate", "arguments": {"expression": "12"}''\<close>
  let ?r2 = \<open>''Here: {"function": calculate} done''\<close>
  let ?m2 = \<open>''{"function": calculate}''\<close>
  let ?r3 = \<open>''{"function": "calculate", "arguments": {}}''\<close>
  have i1: "isolate_marker ?r1 = None" by code_simp
  have i2: "isolate_marker ?r2 = Some ?m2" by code_simp
  have j2: "json_loads example_params ?m2 = None" by code_simp
  have i3: "isolate_marker ?r3 = Some ?r3" by code_simp
  have len: "length ?r3 = 42" by simp
  have "extract_call example_params ?r1 = None"
    using extract_call_malformed [of ?r1 example_params] i1 by blast
  moreover have "extract_call example_params ?r2 = None"
    using extract_call_malformed [of ?r2 example_params] i2 j2 by blast
  moreover have "extract_call example_params (take 41 ?r3) = None"
  proof -
    from extract_call_malformed [of ?r3 example_params] i3 obtain pre post where
      eq: "?r3 = pre @ ?r3 @ post"
      and cut: "\<forall>n<length pre + length ?r3. extract_call example_params (take n ?r3) = None"
      by blast
    have "41 < length pre + length ?r3" unfolding len by simp
    with cut show ?thesis by blast
  qed
  ultimately show ?thesis using i1 i2 j2 i3 by blast
qed

section \<open>The prompt window\<close>

lemma foldl_format_turn:
  "foldl (\<lambda>prompt turn. prompt @ format_turn turn) p turns = p @ concat (map format_turn turns)"
  by (induction turns arbitrary: p) simp_all

lemma generate_prompt_eq:
  \<open>generate_prompt history =
     build_system_prompt @ ''\<newline>\<newline>'' @ concat (map format_turn (py_last 10 history)) @ ''assistant:''\<close>
  by (simp add: generate_prompt_def foldl_format_turn)

text \<open>
  Claim C6.  The history section of the prompt holds the last ten messages: the whole
  history, in order, when it has at most ten messages; its last ten otherwise, and then
  the prompt does not depend on the messages before them.
\<close>

theorem generate_prompt_window:
  \<open>(length history \<le> 10 \<longrightarrow>
      generate_prompt history =
        build_system_prompt @ ''\<newline>\<newline>'' @ concat (map format_turn history) @ ''assistant:'') \<and>
   (10 < length history \<longrightarrow>
      generate_prompt history =
        build_system_prompt @ ''\<newline>\<newline>'' @
        concat (map format_turn (drop (length history - 10) history)) @ ''assistant:'') \<and>
   (\<forall>old recent. history = old @ recent \<and> length recent = 10 \<longrightarrow>
      generate_prompt history = generate_prompt recent)\<close>
  by (auto simp: generate_prompt_eq py_last_def)

theorem generate_prompt_window_witness:
  \<open>length (numbered_turns 2) \<le> 10 \<and>
   generate_prompt (numbered_turns 2) =
     build_system_prompt @ ''\<newline>\<newline>'' @ ''user: 0\<newline>'' @ ''assistant: 1\<newline>'' @ ''assistant:'' \<and>
   10 < length (numbered_turns 12) \<and>
   generate_prompt (numbered_turns 12) =
     build_system_prompt @ ''\<newline>\<newline>'' @ concat (map format_turn (drop 2 (numbered_turns 12))) @ ''assistant:'' \<and>
   numbered_turns 12 = take 2 (numbered_turns 12) @ drop 2 (numbered_turns 12) \<and> length (drop 2 (numbered_turns 12)) = 10 \<and>
   generate_prompt (numbered_turns 12) = generate_prompt (drop 2 (numbered_turns 12))\<close>
proof -
  have l2: "length (numbered_turns 2) \<le> 10" and l12: "10 < length (numbered_turns 12)"
    and d: "length (drop 2 (numbered_turns 12)) = 10" by (simp_all add: numbered_turns_def)
  have s: "numbered_turns 12 = take 2 (numbered_turns 12) @ drop 2 (numbered_turns 12)" by simp
  have t2: \<open>concat (map format_turn (numbered_turns 2)) = ''user: 0\<newline>'' @ ''assistant: 1\<newline>''\<close>
    by code_simp
  have len: "length (numbered_turns 12) - 10 = 2" by (simp add: numbered_turns_def)
  from generate_prompt_window [of "numbered_turns 2"] l2 t2
  have a: \<open>generate_prompt (numbered_turns 2) =
     build_system_prompt @ ''\<newline>\<newline>'' @ ''user: 0\<newline>'' @ ''assistant: 1\<newline>'' @ ''assistant:''\<close>
    by simp
  from generate_prompt_window [of "numbered_turns 12"] l12 len
  have b: \<open>generate_prompt (numbered_turns 12) =
     build_system_prompt @ ''\<newline>\<newline>'' @ concat (map format_turn (drop 2 (numbered_turns 12))) @ ''assistant:''\<close>
    by simp
  from generate_prompt_window [of "numbered_turns 12"] s d
  have c: "generate_prompt (numbered_turns 12) = generate_prompt (drop 2 (numbered_turns 12))" by blast
  from l2 l12 d s a b c show ?thesis by blast
qed

section \<open>generate: properties\<close>

lemma generate_returns:
  assumes "generate w self u h = (Inr r, h')"
  shows "h' = h @ [\<lparr>role = ''user'', content = u\<rparr>, \<lparr>role = ''assistant'', content = r\<rparr>]"
  using assms
  by (auto simp: generate_def generate_try_def Let_def add_user_message_def
        add_assistant_message_def split: sum.splits py_exn.splits prod.splits)

lemma generate_raises:
  assumes "generate w self u h = (Inl e, h')"
  shows "h' = h @ [\<lparr>role = ''user'', content = u\<rparr>] \<and> \<not> is_request_exception e"
  using assms
  by (auto simp: generate_def generate_try_def Let_def add_user_message_def
        add_assistant_message_def split: sum.splits py_exn.splits prod.splits)

lemma generate_timeout:
  assumes "backend_call w self (generate_prompt (get_history (add_user_message u h))) = Inl (Timeout m)"
  shows "generate w self u h =
           (Inr timeout_fallback,
            h @ [\<lparr>role = ''user'', content = u\<rparr>, \<lparr>role = ''assistant'', content = timeout_fallback\<rparr>])"
  using assms
  by (simp add: generate_def generate_try_def Let_def add_user_message_def add_assistant_message_def)

lemma generate_connection_error:
  assumes "backend_call w self (generate_prompt (get_history (add_user_message u h))) = Inl (RequestException m)"
  shows "generate w self u h =
           (Inr connection_fallback,
            h @ [\<lparr>role = ''user'', content = u\<rparr>, \<lparr>role = ''assistant'', content = connection_fallback\<rparr>])"
  using assms
  by (simp add: generate_def generate_try_def Let_def add_user_message_def add_assistant_message_def)

lemma generate_routed:
  assumes "backend_call w self (generate_prompt (get_history (add_user_message u h))) = Inr out"
    and "route_llm_output w (strip_role_prefix role_prefixes out) = Inr (t, b)"
  shows "generate w self u h =
           (Inr t, h @ [\<lparr>role = ''user'', content = u\<rparr>, \<lparr>role = ''assistant'', content = t\<rparr>])"
  using assms
  by (simp add: generate_def generate_try_def Let_def add_user_message_def add_assistant_message_def)

lemma backend_call_post_raises:
  "post w (api_endpoint self) (model_name self) prompt = Inl e \<Longrightarrow> backend_call w self prompt = Inl e"
  by (simp add: backend_call_def)

text \<open>
  Claim C4.  When the backend call raises a timeout or another request exception,
  \<open>generate\<close> returns the fallback text of that handler and the store holds it as the
  assistant entry behind the user message; an exception that leaves \<open>generate\<close> is never
  a request exception.
\<close>

theorem generate_backend_failure_fallback:
  "(\<forall>m. backend_call w self (generate_prompt (get_history (add_user_message u h))) = Inl (Timeout m) \<longrightarrow>
      generate w self u h =
        (Inr timeout_fallback, add_assistant_message timeout_fallback (add_user_message u h))) \<and>
   (\<forall>m. backend_call w self (generate_prompt (get_history (add_user_message u h))) =
          Inl (RequestException m) \<longrightarrow>
      generate w self u h =
        (Inr connection_fallback, add_assistant_message connection_fallback (add_user_message u h))) \<and>
   (\<forall>e. post w (api_endpoint self) (model_name self)
          (generate_prompt (get_history (add_user_message u h))) = Inl e \<and> is_request_exception e \<longrightarrow>
      fst (generate w self u h) \<in> {Inr timeout_fallback, Inr connection_fallback}) \<and>
   (\<forall>e. fst (generate w self u h) = Inl e \<longrightarrow> \<not> is_request_exception e)"
proof (intro conjI allI impI)
  fix m
  assume "backend_call w self (generate_prompt (get_history (add_user_message u h))) = Inl (Timeout m)"
  from generate_timeout [OF this]
  show "generate w self u h =
        (Inr timeout_fallback, add_assistant_message timeout_fallback (add_user_message u h))"
    by (simp add: add_user_message_def add_assistant_message_def)
next
  fix m
  assume "backend_call w self (generate_prompt (get_history (add_user_message u h))) =
          Inl (RequestException m)"
  from generate_connection_error [OF this]
  show "generate w self u h =
        (Inr connection_fallback, add_assistant_message connection_fallback (add_user_message u h))"
    by (simp add: add_user_message_def add_assistant_message_def)
next
  fix e
  assume a: "post w (api_endpoint self) (model_name self)
          (generate_prompt (get_history (add_user_message u h))) = Inl e \<and> is_request_exception e"
  then have b: "backend_call w self (generate_prompt (get_history (add_user_message u h))) = Inl e"
    by (simp add: backend_call_post_raises)
  from a have "is_request_exception e" by simp
  then show "fst (generate w self u h) \<in> {Inr timeout_fallback, Inr connection_fallback}"
    using b generate_timeout [of w self u h] generate_connection_error [of w self u h]
    by (cases e) auto
next
  fix e
  assume "fst (generate w self u h) = Inl e"
  then have "generate w self u h = (Inl e, snd (generate w self u h))"
    by (metis prod.collapse)
  from generate_raises [OF this] show "\<not> is_request_exception e" by simp
qed

text \<open>
  Claim C5 as stated fails.  The user message is added before the \<^verbatim>\<open>try\<close>, and the two
  handlers catch request exceptions only.  On a response with status 200 whose body is
  the JSON array \<^verbatim>\<open>[]\<close>, line 120 raises \<^verbatim>\<open>AttributeError\<close>, which leaves \<open>generate\<close>: the store
  holds the user message and no assistant entry.
\<close>

theorem generate_no_assistant_entry_counterexample:
  "generate (fixed_world (ok_response (JArr []))) llm_module_with_functions ''hi'' [] =
     (Inl (OtherException ''AttributeError''), [\<lparr>role = ''user'', content = ''hi''\<rparr>])"
  by (simp add: generate_def generate_try_def backend_call_def fixed_world_def ok_response_def
        response_text_def add_user_message_def Let_def)

text \<open>
  Claim C5, amended.  A call of \<open>generate\<close> that returns leaves the store with exactly the
  user message and one assistant entry, the returned text, added at its end; and the call
  returns in each of the three branches: a routed answer, a backend timeout, a backend
  connection error.  A call that an exception leaves has added the user message and no
  assistant entry.
\<close>

theorem generate_appends_user_and_assistant:
  "(\<forall>r h'. generate w self u h = (Inr r, h') \<longrightarrow>
      h' = h @ [\<lparr>role = ''user'', content = u\<rparr>, \<lparr>role = ''assistant'', content = r\<rparr>]) \<and>
   (\<forall>m. backend_call w self (generate_prompt (get_history (add_user_message u h))) = Inl (Timeout m) \<longrightarrow>
      (\<exists>r. fst (generate w self u h) = Inr r)) \<and>
   (\<forall>m. backend_call w self (generate_prompt (get_history (add_user_message u h))) =
          Inl (RequestException m) \<longrightarrow>
      (\<exists>r. fst (generate w self u h) = Inr r)) \<and>
   (\<forall>out t b. backend_call w self (generate_prompt (get_history (add_user_message u h))) = Inr out \<and>
      route_llm_output w (strip_role_prefix role_prefixes out) = Inr (t, b) \<longrightarrow>
      fst (generate w self u h) = Inr t) \<and>
   (\<forall>e h'. generate w self u h = (Inl e, h') \<longrightarrow> h' = h @ [\<lparr>role = ''user'', content = u\<rparr>])"
proof (intro conjI allI impI)
  fix r h' assume "generate w self u h = (Inr r, h')"
  then show "h' = h @ [\<lparr>role = ''user'', content = u\<rparr>, \<lparr>role = ''assistant'', content = r\<rparr>]"
    by (rule generate_returns)
next
  fix e h' assume "generate w self u h = (Inl e, h')"
  from generate_raises [OF this] show "h' = h @ [\<lparr>role = ''user'', content = u\<rparr>]" ..
next
  fix m
  assume "backend_call w self (generate_prompt (get_history (add_user_message u h))) = Inl (Timeout m)"
  from generate_timeout [OF this] show "\<exists>r. fst (generate w self u h) = Inr r" by simp
next
  fix m
  assume "backend_call w self (generate_prompt (get_history (add_user_message u h))) =
          Inl (RequestException m)"
  from generate_connection_error [OF this] show "\<exists>r. fst (generate w self u h) = Inr r" by simp
next
  fix out t b
  assume "backend_call w self (generate_prompt (get_history (add_user_message u h))) = Inr out \<and>
      route_llm_output w (strip_role_prefix role_prefixes out) = Inr (t, b)"
  then have "generate w self u h =
           (Inr t, h @ [\<lparr>role = ''user'', content = u\<rparr>, \<lparr>role = ''assistant'', content = t\<rparr>])"
    using generate_routed by blast
  then show "fst (generate w self u h) = Inr t" by simp
qed


theorem generate_backend_failure_fallback_witness:
  "generate (fixed_world (Inl (Timeout ''timed out''))) llm_module_with_functions ''hi'' [] =
     (Inr timeout_fallback,
      [\<lparr>role = ''user'', content = ''hi''\<rparr>, \<lparr>role = ''assistant'', content = timeout_fallback\<rparr>]) \<and>
   generate (fixed_world (Inl (RequestException ''refused''))) llm_module_with_functions ''hi'' [] =
     (Inr connection_fallback,
      [\<lparr>role = ''user'', content = ''hi''\<rparr>, \<lparr>role = ''assistant'', content = connection_fallback\<rparr>]) \<and>
   fst (generate (fixed_world (Inl (Timeout ''timed out''))) llm_module_with_functions ''hi'' [])
     \<in> {Inr timeout_fallback, Inr connection_fallback} \<and>
   fst (generate (fixed_world (ok_response (JArr []))) llm_module_with_functions ''hi'' []) =
     Inl (OtherException ''AttributeError'') \<and>
   \<not> is_request_exception (OtherException ''AttributeError'')"
proof -
  let ?wt = "fixed_world (Inl (Timeout ''timed out''))"
  let ?wc = "fixed_world (Inl (RequestException ''refused''))"
  let ?wb = "fixed_world (ok_response (JArr []))"
  let ?self = llm_module_with_functions
  let ?p = "generate_prompt (get_history (add_user_message ''hi'' []))"
  have pt: "post ?wt (api_endpoint ?self) (model_name ?self) ?p = Inl (Timeout ''timed out'')"
    by (simp add: fixed_world_def)
  have bt: "backend_call ?wt ?self ?p = Inl (Timeout ''timed out'')"
    by (simp add: backend_call_def fixed_world_def)
  have bc: "backend_call ?wc ?self ?p = Inl (RequestException ''refused'')"
    by (simp add: backend_call_def fixed_world_def)
  have gb: "fst (generate ?wb ?self ''hi'' []) = Inl (OtherException ''AttributeError'')"
    by (simp add: generate_def generate_try_def backend_call_def fixed_world_def ok_response_def
          response_text_def Let_def)
  have "generate ?wt ?self ''hi'' [] =
          (Inr timeout_fallback, add_assistant_message timeout_fallback (add_user_message ''hi'' []))"
    using generate_backend_failure_fallback [of ?wt ?self "''hi''" "[]"] bt by blast
  moreover have "generate ?wc ?self ''hi'' [] =
          (Inr connection_fallback, add_assistant_message connection_fallback (add_user_message ''hi'' []))"
    using generate_backend_failure_fallback [of ?wc ?self "''hi''" "[]"] bc by blast
  moreover have "fst (generate ?wt ?self ''hi'' []) \<in> {Inr timeout_fallback, Inr connection_fallback}"
    using generate_backend_failure_fallback [of ?wt ?self "''hi''" "[]"] pt
      is_request_exception.simps(1) [of "''timed out''"] by blast
  moreover have "\<not> is_request_exception (OtherException ''AttributeError'')"
    using generate_backend_failure_fallback [of ?wb ?self "''hi''" "[]"] gb by blast
  ultimately show ?thesis using gb
    by (simp add: add_user_message_def add_assistant_message_def)
qed

theorem generate_appends_user_and_assistant_witness:
  \<open>generate (fixed_world (ok_response (JObj [(''response'', JStr '' assistant: Hello '')])))
      llm_module_with_functions ''hi'' [\<lparr>role = ''user'', content = ''before''\<rparr>] =
     (Inr ''Hello'',
      [\<lparr>role = ''user'', content = ''before''\<rparr>, \<lparr>role = ''user'', content = ''hi''\<rparr>,
       \<lparr>role = ''assistant'', content = ''Hello''\<rparr>]) \<and>
   (\<exists>r. fst (generate (fixed_world (Inl (Timeout ''timed out''))) llm_module_with_functions ''hi''
             [\<lparr>role = ''user'', content = ''before''\<rparr>]) = Inr r) \<and>
   (\<exists>r. fst (generate (fixed_world (Inl (RequestException ''refused''))) llm_module_with_functions ''hi''
             [\<lparr>role = ''user'', content = ''before''\<rparr>]) = Inr r) \<and>
   generate (fixed_world (ok_response (JNull))) llm_module_with_functions ''hi''
      [\<lparr>role = ''user'', content = ''before''\<rparr>] =
     (Inl (OtherException ''AttributeError''),
      [\<lparr>role = ''user'', content = ''before''\<rparr>, \<lparr>role = ''user'', content = ''hi''\<rparr>])\<close>
proof -
  let ?wn = "fixed_world (ok_response JNull)"
  let ?wo = \<open>fixed_world (ok_response (JObj [(''response'', JStr '' assistant: Hello '')]))\<close>
  let ?wt = "fixed_world (Inl (Timeout ''timed out''))"
  let ?wc = "fixed_world (Inl (RequestException ''refused''))"
  let ?self = llm_module_with_functions
  let ?h = "[\<lparr>role = ''user'', content = ''before''\<rparr>]"
  let ?p = "generate_prompt (get_history (add_user_message ''hi'' ?h))"
  have st: "strip '' assistant: Hello '' = ''assistant: Hello''" by code_simp
  have bo: "backend_call ?wo ?self ?p = Inr ''assistant: Hello''"
    by (simp add: backend_call_def fixed_world_def ok_response_def response_text_def st)
  have sp: "strip_role_prefix role_prefixes ''assistant: Hello'' = ''Hello''" by code_simp
  have ro: "route_llm_output ?wo (strip_role_prefix role_prefixes ''assistant: Hello'') =
              Inr (''Hello'', False)"
    by (simp add: fixed_world_def sp)
  have bt: "backend_call ?wt ?self ?p = Inl (Timeout ''timed out'')"
    by (simp add: backend_call_def fixed_world_def)
  have bc: "backend_call ?wc ?self ?p = Inl (RequestException ''refused'')"
    by (simp add: backend_call_def fixed_world_def)
  have f: "fst (generate ?wo ?self ''hi'' ?h) = Inr ''Hello''"
    using generate_appends_user_and_assistant [of ?wo ?self "''hi''" ?h] bo ro by blast
  then have "generate ?wo ?self ''hi'' ?h = (Inr ''Hello'', snd (generate ?wo ?self ''hi'' ?h))"
    by (metis prod.collapse)
  then have "generate ?wo ?self ''hi'' ?h =
      (Inr ''Hello'', ?h @ [\<lparr>role = ''user'', content = ''hi''\<rparr>, \<lparr>role = ''assistant'', content = ''Hello''\<rparr>])"
    using generate_appends_user_and_assistant [of ?wo ?self "''hi''" ?h] by metis
  moreover have "\<exists>r. fst (generate ?wt ?self ''hi'' ?h) = Inr r"
    using generate_appends_user_and_assistant [of ?wt ?self "''hi''" ?h] bt by blast
  moreover have "\<exists>r. fst (generate ?wc ?self ''hi'' ?h) = Inr r"
    using generate_appends_user_and_assistant [of ?wc ?self "''hi''" ?h] bc by blast
  moreover have "generate ?wn ?self ''hi'' ?h =
      (Inl (OtherException ''AttributeError''), ?h @ [\<lparr>role = ''user'', content = ''hi''\<rparr>])"
  proof -
    have f: "fst (generate ?wn ?self ''hi'' ?h) = Inl (OtherException ''AttributeError'')"
      by (simp add: generate_def generate_try_def backend_call_def fixed_world_def ok_response_def
            response_text_def Let_def)
    then have g: "generate ?wn ?self ''hi'' ?h =
        (Inl (OtherException ''AttributeError''), snd (generate ?wn ?self ''hi'' ?h))"
      by (metis prod.collapse)
    have "snd (generate ?wn ?self ''hi'' ?h) = ?h @ [\<lparr>role = ''user'', content = ''hi''\<rparr>]"
      by (rule generate_appends_user_and_assistant [of ?wn ?self "''hi''" ?h,
            THEN conjunct2, THEN conjunct2, THEN conjunct2, THEN conjunct2, rule_format, OF g])
    with g show ?thesis by simp
  qed
  ultimately show ?thesis by simp
qed

section \<open>The tool descriptions and the system prompt: properties\<close>

lemma is_substring_iff: "is_substring sub s \<longleftrightarrow> (\<exists>ps ss. s = ps @ sub @ ss)"
proof (induction s)
  case Nil
  then show ?case by auto
next
  case (Cons c cs)
  show ?case
  proof
    assume "is_substring sub (c # cs)"
    then consider "prefix sub (c # cs)" | "is_substring sub cs" by auto
    then show "\<exists>ps ss. c # cs = ps @ sub @ ss"
    proof cases
      case 1
      then obtain ss where "c # cs = sub @ ss" by (auto simp: prefix_def)
      then have "c # cs = [] @ sub @ ss" by simp
      then show ?thesis by blast
    next
      case 2
      with Cons.IH obtain ps ss where "cs = ps @ sub @ ss" by blast
      then have "c # cs = (c # ps) @ sub @ ss" by simp
      then show ?thesis by blast
    qed
  next
    assume "\<exists>ps ss. c # cs = ps @ sub @ ss"
    then obtain ps ss where eq: "c # cs = ps @ sub @ ss" by blast
    show "is_substring sub (c # cs)"
    proof (cases ps)
      case Nil
      with eq have "prefix sub (c # cs)" by (simp add: prefix_def)
      then show ?thesis by simp
    next
      case (Cons p ps')
      with eq have "cs = ps' @ sub @ ss" by simp
      with Cons.IH have "is_substring sub cs" by blast
      then show ?thesis by simp
    qed
  qed
qed

lemma is_substring_append:
  "is_substring sub s \<Longrightarrow> is_substring sub (a @ s @ b)"
  unfolding is_substring_iff by (metis append.assoc)

lemma names_in_descriptions:
  "is_substring ''search_arxiv'' get_tool_descriptions"
  "is_substring ''calculate'' get_tool_descriptions"
  by code_simp+

text \<open>
  Claim C7.  The registry holds the tools \<open>search_arxiv\<close> and \<open>calculate\<close>; the name of each
  occurs in the tool descriptions, which the system prompt contains, and so in the system
  prompt.
\<close>

theorem system_prompt_names_registered_tools:
  "map fst AVAILABLE_TOOLS = [''search_arxiv'', ''calculate''] \<and>
   (\<forall>name \<in> set (map fst AVAILABLE_TOOLS).
      is_substring name get_tool_descriptions \<and> is_substring name build_system_prompt) \<and>
   (\<exists>before after. build_system_prompt = before @ get_tool_descriptions @ after)"
proof -
  have k: "map fst AVAILABLE_TOOLS = [''search_arxiv'', ''calculate'']"
    by (simp add: AVAILABLE_TOOLS_def)
  have d: "\<exists>before after. build_system_prompt = before @ get_tool_descriptions @ after"
    unfolding build_system_prompt_def by blast
  have "is_substring name build_system_prompt" if "is_substring name get_tool_descriptions" for name
    using that d is_substring_append by metis
  with names_in_descriptions k d show ?thesis by auto
qed

theorem system_prompt_names_registered_tools_witness:
  "''calculate'' \<in> set (map fst AVAILABLE_TOOLS) \<and> is_substring ''calculate'' build_system_prompt \<and>
   ''search_arxiv'' \<in> set (map fst AVAILABLE_TOOLS) \<and> is_substring ''search_arxiv'' build_system_prompt"
proof -
  have "''calculate'' \<in> set (map fst AVAILABLE_TOOLS)" "''search_arxiv'' \<in> set (map fst AVAILABLE_TOOLS)"
    by (simp_all add: AVAILABLE_TOOLS_def)
  then show ?thesis using system_prompt_names_registered_tools by blast
qed

text \<open>
  Claim C8.  \<open>get_tool_descriptions\<close> takes no argument and reads no state: it is one fixed
  string.  That string is the catalogue of the registered tools in registration order,
  each with its name, its parameter summary and one example invocation.
\<close>

theorem get_tool_descriptions_catalogue:
  \<open>get_tool_descriptions = describe_all tool_docs \<and>
   map doc_name tool_docs = map fst AVAILABLE_TOOLS \<and>
   py_count ''Example: '' get_tool_descriptions = length AVAILABLE_TOOLS \<and>
   map (\<lambda>d. py_count (example_invocation d) get_tool_descriptions) tool_docs = [1, 1]\<close>
  by code_simp

section \<open>calculate: properties\<close>

lemma calculate_success:
  assumes "calculate_try lib expression = Inr r"
  shows "calculate lib expression = Inr r \<and> prefix ''The result is: '' r"
  using assms by (auto simp: calculate_def calculate_try_def prefix_def split: sum.splits)

lemma calculate_sympify_error:
  assumes "calculate_try lib expression = Inl (SympifyError m)"
  shows "calculate lib expression = Inr (''Invalid mathematical expression: '' @ expression)"
  using assms by (simp add: calculate_def)

lemma calculate_same_try:
  assumes "calculate_try lib a = calculate_try lib b"
    and "\<forall>m. calculate_try lib b \<noteq> Inl (SympifyError m)"
  shows "calculate lib a = calculate lib b"
proof (cases "calculate_try lib b")
  case (Inl e)
  with assms show ?thesis by (cases e) (simp_all add: calculate_def)
next
  case (Inr r)
  with assms show ?thesis by (simp add: calculate_def)
qed

lemma result_str_sympify_update [simp]:
  "result_str (lib\<lparr>sympify := f\<rparr>) result = result_str lib result"
  by (simp add: result_str_def numerical_result_def cong: sum.case_cong)

lemma calculate_try_clean:
  "clean_expression e1 = clean_expression e2 \<Longrightarrow> calculate_try lib e1 = calculate_try lib e2"
  by (simp add: calculate_try_def)

lemma calculate_try_printing_quiet:
  "calculate_try_printing quiet_stdout lib expression = calculate_try lib expression"
  by (simp add: calculate_try_printing_def calculate_try_def quiet_stdout_def split: sum.split)

lemma calculate_printing_quiet:
  "calculate_printing quiet_stdout lib expression = calculate lib expression"
proof -
  have q: "quiet_stdout line = None" for line by (simp add: quiet_stdout_def)
  show ?thesis
    by (simp add: calculate_printing_def calculate_try_printing_quiet report_error_def q
          calculate_def split: sum.split py_exn.split)
qed










text \<open>
  Claim C10 as stated fails twice.  The expression evaluated can still contain one of
  the four substrings: a deletion can bring a new occurrence together.  And two
  expressions with the same cleaned form give different results when the library rejects
  the cleaned form, since the error message echoes the expression as given.
\<close>

theorem calculate_prefix_counterexample:
  "clean_expression ''nnp.umpy.sqrt(4)'' = ''numpy.sqrt(4)'' \<and>
   is_substring ''numpy.'' (clean_expression ''nnp.umpy.sqrt(4)'') \<and>
   clean_expression ''math.1+'' = clean_expression ''1+'' \<and>
   calculate numeral_sympy ''math.1+'' = Inr ''Invalid mathematical expression: math.1+'' \<and>
   calculate numeral_sympy ''1+'' = Inr ''Invalid mathematical expression: 1+'' \<and>
   calculate numeral_sympy ''math.1+'' \<noteq> calculate numeral_sympy ''1+''"
  by code_simp

text \<open>
  Claim C10, amended.  \<open>calculate\<close> hands the library the result of the four successive
  \<^verbatim>\<open>replace\<close> passes and consults the library on that text only; \<^verbatim>\<open>math.sqrt(4)\<close> is
  evaluated as \<^verbatim>\<open>sqrt(4)\<close>.  Two expressions with the same cleaned form run the same
  evaluation, and give the same result unless it raises \<open>SympifyError\<close>, where the result
  echoes the expression as given.
\<close>

theorem calculate_evaluates_clean_expression:
  "clean_expression expression =
     py_replace ''Math.'' [] (py_replace ''np.'' [] (py_replace ''numpy.'' []
       (py_replace ''math.'' [] expression))) \<and>
   clean_expression ''math.sqrt(4)'' = ''sqrt(4)'' \<and>
   (\<forall>f. f (clean_expression expression) = sympify lib (clean_expression expression) \<longrightarrow>
      calculate (lib\<lparr>sympify := f\<rparr>) expression = calculate lib expression) \<and>
   (\<forall>other. clean_expression other = clean_expression expression \<longrightarrow>
      calculate_try lib other = calculate_try lib expression) \<and>
   (\<forall>other. clean_expression other = clean_expression expression \<and>
      (\<forall>m. calculate_try lib expression \<noteq> Inl (SympifyError m)) \<longrightarrow>
      calculate lib other = calculate lib expression) \<and>
   (\<forall>m. calculate_try lib expression = Inl (SympifyError m) \<longrightarrow>
      calculate lib expression = Inr (''Invalid mathematical expression: '' @ expression))"
proof (intro conjI allI impI)
  show "clean_expression expression =
     py_replace ''Math.'' [] (py_replace ''np.'' [] (py_replace ''numpy.'' []
       (py_replace ''math.'' [] expression)))"
    by (simp add: clean_expression_def)
next
  show "clean_expression ''math.sqrt(4)'' = ''sqrt(4)''" by code_simp
next
  fix f assume "f (clean_expression expression) = sympify lib (clean_expression expression)"
  then have "calculate_try (lib\<lparr>sympify := f\<rparr>) expression = calculate_try lib expression"
    by (simp add: calculate_try_def cong: sum.case_cong)
  then show "calculate (lib\<lparr>sympify := f\<rparr>) expression = calculate lib expression"
    by (simp add: calculate_def)
next
  fix other assume "clean_expression other = clean_expression expression"
  then show "calculate_try lib other = calculate_try lib expression" by (rule calculate_try_clean)
next
  fix other
  assume a: "clean_expression other = clean_expression expression \<and>
      (\<forall>m. calculate_try lib expression \<noteq> Inl (SympifyError m))"
  then have "clean_expression other = clean_expression expression" ..
  then have t: "calculate_try lib other = calculate_try lib expression"
    by (rule calculate_try_clean)
  from a have ne: "\<forall>m. calculate_try lib expression \<noteq> Inl (SympifyError m)" ..
  from t ne show "calculate lib other = calculate lib expression" by (rule calculate_same_try)
next
  fix m assume "calculate_try lib expression = Inl (SympifyError m)"
  then show "calculate lib expression = Inr (''Invalid mathematical expression: '' @ expression)"
    by (rule calculate_sympify_error)
qed

theorem calculate_evaluates_clean_expression_witness:
  "calculate (numeral_sympy\<lparr>sympify := \<lambda>s. if s = ''12'' then Inr ''12'' else Inl (OtherException ''unused'')\<rparr>)
      ''np.12'' = calculate numeral_sympy ''np.12'' \<and>
   calculate_try numeral_sympy ''math.12'' = calculate_try numeral_sympy ''np.12'' \<and>
   calculate numeral_sympy ''math.12'' = calculate numeral_sympy ''np.12'' \<and>
   calculate numeral_sympy ''np.1+'' = Inr ''Invalid mathematical expression: np.1+''"
proof -
  let ?f = "\<lambda>s. if s = ''12'' then Inr ''12'' else Inl (OtherException ''unused'')"
  have c1: "clean_expression ''np.12'' = ''12''" by code_simp
  have c2: "clean_expression ''math.12'' = clean_expression ''np.12''" by code_simp
  have s: "sympify numeral_sympy ''12'' = Inr ''12''" by code_simp
  have t: "calculate_try numeral_sympy ''np.12'' = Inr ''The result is: 12.0''" by code_simp
  have e: "calculate_try numeral_sympy ''np.1+'' = Inl (SympifyError ''1+'')" by code_simp
  have f: "?f (clean_expression ''np.12'') = sympify numeral_sympy (clean_expression ''np.12'')"
    by (simp add: c1 s)
  have n: "\<forall>m. calculate_try numeral_sympy ''np.12'' \<noteq> Inl (SympifyError m)" by (simp add: t)
  note T = calculate_evaluates_clean_expression [of "''np.12''" numeral_sympy]
  note E = calculate_evaluates_clean_expression [of "''np.1+''" numeral_sympy]
  have "calculate (numeral_sympy\<lparr>sympify := ?f\<rparr>) ''np.12'' = calculate numeral_sympy ''np.12''"
    by (rule T [THEN conjunct2, THEN conjunct2, THEN conjunct1, rule_format, of ?f, OF f])
  moreover have "calculate_try numeral_sympy ''math.12'' = calculate_try numeral_sympy ''np.12''"
    by (rule T [THEN conjunct2, THEN conjunct2, THEN conjunct2, THEN conjunct1, rule_format, OF c2])
  moreover have "calculate numeral_sympy ''math.12'' = calculate numeral_sympy ''np.12''"
    by (rule T [THEN conjunct2, THEN conjunct2, THEN conjunct2, THEN conjunct2, THEN conjunct1,
          rule_format, OF conjI [OF c2 n]])
  moreover have "calculate numeral_sympy ''np.1+'' = Inr (''Invalid mathematical expression: '' @ ''np.1+'')"
    by (rule E [THEN conjunct2, THEN conjunct2, THEN conjunct2, THEN conjunct2, THEN conjunct2,
          rule_format, OF e])
  ultimately show ?thesis by simp
qed

end
